theory Spec2Isabelle
  imports Complex_Main
begin

section \<open>Awaited calls and their outcomes\<close>

text \<open>
  Every \<open>await\<close> of the screens sits inside a \<open>try\<close> block: the awaited promise
  either resolves with a value or rejects, and the rejection is caught by the handler's
  own \<open>catch\<close>.  The outcome is an input of the model.
\<close>

datatype 'a answer = Throws | Resolves 'a

section \<open>The location screen (LocationScreen)\<close>

subsection \<open>State of the component\<close>

record location_coords =
  latitude :: real
  longitude :: real

record location_object =
  coords :: location_coords
  timestamp :: nat

record region =
  region_latitude :: real
  region_longitude :: real
  latitudeDelta :: real
  longitudeDelta :: real

text \<open>
  The \<open>useState\<close> cells of the component.  A permission status is the string the
  platform reports (\<open>'granted'\<close>, \<open>'denied'\<close>, \<open>'undetermined'\<close>); the subscription
  object returned by \<open>watchPositionAsync\<close> is identified by a handle number.
\<close>

record location_screen =
  location :: "location_object option"
  errorMsg :: "string option"
  isLoading :: bool
  permissionStatus :: "string option"
  isTracking :: bool
  locationSubscription :: "nat option"
  mapRegion :: region

definition initial_location_screen :: location_screen where
  "initial_location_screen =
     \<lparr> location = None, errorMsg = None, isLoading = False, permissionStatus = None,
       isTracking = False, locationSubscription = None,
       mapRegion = \<lparr> region_latitude = 37.78825, region_longitude = -122.4324,
                     latitudeDelta = 0.0922, longitudeDelta = 0.0421 \<rparr> \<rparr>"

subsection \<open>The platform seen from the screen\<close>

datatype location_call =
    GetForegroundPermissions
  | RequestForegroundPermissions
  | GetCurrentPosition
  | WatchPosition

text \<open>
  What lies outside the component: the calls it made to the permission and location
  modules (oldest first), the alerts it raised, and the position subscriptions that are
  live in the location subsystem.

  Modelled from the spec: the location subsystem's
  \<open>subscribe(...) -> handle\<close> and the idempotent \<open>SubscriptionHandle.cancel()\<close>
  (the library behind \<open>Location.watchPositionAsync\<close> and \<open>subscription.remove()\<close>
  is not part of the repository).  A successful subscribe hands out a fresh handle and
  makes it live; cancelling takes the handle out of the live ones and does nothing
  when it is not there.
\<close>

record location_platform =
  live_subs :: "nat list"
  next_sub :: nat
  location_calls :: "location_call list"
  location_alerts :: "(string \<times> string) list"

definition initial_location_platform :: location_platform where
  "initial_location_platform =
     \<lparr> live_subs = [], next_sub = 0, location_calls = [], location_alerts = [] \<rparr>"

definition call_location :: "location_call \<Rightarrow> location_platform \<Rightarrow> location_platform" where
  "call_location c w = w\<lparr> location_calls := location_calls w @ [c] \<rparr>"

definition alert_location :: "string \<Rightarrow> string \<Rightarrow> location_platform \<Rightarrow> location_platform" where
  "alert_location title msg w = w\<lparr> location_alerts := location_alerts w @ [(title, msg)] \<rparr>"

definition subscribe :: "location_platform \<Rightarrow> nat \<times> location_platform" where
  "subscribe w =
     (next_sub w, w\<lparr> live_subs := next_sub w # live_subs w, next_sub := Suc (next_sub w) \<rparr>)"

definition remove_sub :: "nat \<Rightarrow> location_platform \<Rightarrow> location_platform" where
  "remove_sub h w = w\<lparr> live_subs := removeAll h (live_subs w) \<rparr>"

subsection \<open>The handlers\<close>

text \<open>
  \<open>getCurrentLocation\<close> (lines 99-121): no test of the permission; the position is
  always asked for.
\<close>

definition getCurrentLocation ::
  "location_object answer \<Rightarrow> location_screen \<Rightarrow> location_platform
     \<Rightarrow> location_screen \<times> location_platform" where
  "getCurrentLocation r s w =
     (let s1 = s\<lparr> isLoading := True, errorMsg := None \<rparr>;
          w1 = call_location GetCurrentPosition w
      in case r of
           Resolves locationData \<Rightarrow>
             (s1\<lparr> location := Some locationData,
                  mapRegion := \<lparr> region_latitude = latitude (coords locationData),
                                 region_longitude = longitude (coords locationData),
                                 latitudeDelta = 0.01, longitudeDelta = 0.01 \<rparr>,
                  isLoading := False \<rparr>, w1)
         | Throws \<Rightarrow>
             (s1\<lparr> errorMsg := Some ''Unable to get location. Please ensure GPS is enabled.'',
                  isLoading := False \<rparr>, w1))"

text \<open>
  \<open>checkLocationPermission\<close> (lines 68-97).  The three answers are those of
  \<open>getForegroundPermissionsAsync\<close>, of \<open>requestForegroundPermissionsAsync\<close> and of the
  position request of \<open>getCurrentLocation\<close>; an answer is only consumed when its call
  is made.  \<open>getCurrentLocation()\<close> is started without \<open>await\<close>: its synchronous
  prefix runs before the \<open>finally\<close> block and its continuation after it, and both end
  with \<open>setIsLoading(false)\<close>, so the state after everything has settled is the one
  computed here.
\<close>

definition checkLocationPermission ::
  "string answer \<Rightarrow> string answer \<Rightarrow> location_object answer
     \<Rightarrow> location_screen \<Rightarrow> location_platform \<Rightarrow> location_screen \<times> location_platform" where
  "checkLocationPermission got asked fix s w =
     (let s1 = s\<lparr> isLoading := True \<rparr>;
          w1 = call_location GetForegroundPermissions w
      in case got of
           Throws \<Rightarrow>
             (s1\<lparr> errorMsg := Some ''Error checking location permission'',
                  isLoading := False \<rparr>, w1)
         | Resolves status \<Rightarrow>
             (let s2 = s1\<lparr> permissionStatus := Some status \<rparr>
              in if status \<noteq> ''granted'' then
                   (let w2 = call_location RequestForegroundPermissions w1
                    in case asked of
                         Throws \<Rightarrow>
                           (s2\<lparr> errorMsg := Some ''Error checking location permission'',
                                isLoading := False \<rparr>, w2)
                       | Resolves newStatus \<Rightarrow>
                           (let s3 = s2\<lparr> permissionStatus := Some newStatus \<rparr>
                            in if newStatus \<noteq> ''granted'' then
                                 (s3\<lparr> errorMsg := Some ''Permission to access location was denied'',
                                      isLoading := False \<rparr>,
                                  alert_location ''Location Permission Required''
                                    ''This app needs location access to show your current position. Please enable location in your device settings.''
                                    w2)
                               else
                                 (case getCurrentLocation fix s3 w2 of
                                    (s4, w3) \<Rightarrow> (s4\<lparr> isLoading := False \<rparr>, w3))))
                 else
                   (case getCurrentLocation fix s2 w1 of
                      (s4, w3) \<Rightarrow> (s4\<lparr> isLoading := False \<rparr>, w3))))"

text \<open>
  \<open>watchLocation\<close> (lines 123-162): a start/stop toggle on \<open>isTracking\<close>.  The answer
  says whether \<open>watchPositionAsync\<close> resolves (with a subscription) or rejects.
\<close>

definition watchLocation ::
  "unit answer \<Rightarrow> location_screen \<Rightarrow> location_platform
     \<Rightarrow> location_screen \<times> location_platform" where
  "watchLocation r s w =
     (if isTracking s then
        (case locationSubscription s of
           Some h \<Rightarrow> (s\<lparr> locationSubscription := None, isTracking := False \<rparr>, remove_sub h w)
         | None \<Rightarrow> (s\<lparr> isTracking := False \<rparr>, w))
      else
        (let s1 = s\<lparr> isLoading := True \<rparr>;
             w1 = call_location WatchPosition w
         in case r of
              Resolves _ \<Rightarrow>
                (case subscribe w1 of
                   (subscription, w2) \<Rightarrow>
                     (s1\<lparr> locationSubscription := Some subscription, isTracking := True,
                          isLoading := False \<rparr>, w2))
            | Throws \<Rightarrow>
                (s1\<lparr> errorMsg := Some ''Unable to watch location'', isLoading := False \<rparr>, w1)))"

text \<open>The callback registered with \<open>watchPositionAsync\<close> (lines 142-151).\<close>

definition onNewLocation :: "location_object \<Rightarrow> location_screen \<Rightarrow> location_screen" where
  "onNewLocation newLocation s =
     s\<lparr> location := Some newLocation,
        mapRegion := \<lparr> region_latitude = latitude (coords newLocation),
                       region_longitude = longitude (coords newLocation),
                       latitudeDelta = 0.01, longitudeDelta = 0.01 \<rparr> \<rparr>"

text \<open>
  The cleanup of the effect on \<open>locationSubscription\<close> (lines 59-66): it closes over the
  subscription of the render it belongs to, and runs when the component unmounts and
  when a later render holds a different subscription.
\<close>

definition cleanup :: "location_screen \<Rightarrow> location_platform \<Rightarrow> location_platform" where
  "cleanup s w = (case locationSubscription s of Some h \<Rightarrow> remove_sub h w | None \<Rightarrow> w)"

definition rerun_effect ::
  "location_screen \<Rightarrow> location_screen \<Rightarrow> location_platform \<Rightarrow> location_platform" where
  "rerun_effect old new w =
     (if locationSubscription old = locationSubscription new then w else cleanup old w)"

subsection \<open>The handlers cut at their awaits\<close>

text \<open>
  The three definitions above run a handler from its first line to its last.  In the
  component a handler gives control back at each \<open>await\<close>, and other handlers, and the
  unmount, run before its promise settles.  Each part below is the code between two
  awaits; a part says which await it ends at, or that the handler has finished.  The
  setters do not read the state, so a part acts on the state current when it runs.
\<close>

datatype location_await = AwaitRead | AwaitAnswer | AwaitPosition | AwaitWatch

text \<open>\<open>getCurrentLocation\<close>: lines 100-104 up to the call, and lines 108-120 after it.\<close>

definition getCurrentLocation_begin ::
  "location_screen \<Rightarrow> location_platform \<Rightarrow> location_screen \<times> location_platform" where
  "getCurrentLocation_begin s w =
     (s\<lparr> isLoading := True, errorMsg := None \<rparr>, call_location GetCurrentPosition w)"

definition getCurrentLocation_settle ::
  "location_object answer \<Rightarrow> location_screen \<Rightarrow> location_screen" where
  "getCurrentLocation_settle r s =
     (case r of
        Resolves locationData \<Rightarrow>
          s\<lparr> location := Some locationData,
             mapRegion := \<lparr> region_latitude = latitude (coords locationData),
                            region_longitude = longitude (coords locationData),
                            latitudeDelta = 0.01, longitudeDelta = 0.01 \<rparr>,
             isLoading := False \<rparr>
      | Throws \<Rightarrow>
          s\<lparr> errorMsg := Some ''Unable to get location. Please ensure GPS is enabled.'',
             isLoading := False \<rparr>)"

text \<open>
  \<open>checkLocationPermission\<close>: lines 69-71 up to the read of the status, lines 72-75
  and 88-96 after it, lines 76-87 and 91-96 after the answer to the request.  The call
  \<open>getCurrentLocation()\<close> runs to the await of the position, and the \<open>finally\<close> block
  follows at once.
\<close>

definition checkLocationPermission_begin ::
  "location_screen \<Rightarrow> location_platform \<Rightarrow> location_screen \<times> location_platform" where
  "checkLocationPermission_begin s w =
     (s\<lparr> isLoading := True \<rparr>, call_location GetForegroundPermissions w)"

definition checkLocationPermission_read ::
  "string answer \<Rightarrow> location_screen \<Rightarrow> location_platform
     \<Rightarrow> location_await option \<times> location_screen \<times> location_platform" where
  "checkLocationPermission_read got s w =
     (case got of
        Throws \<Rightarrow>
          (None, s\<lparr> errorMsg := Some ''Error checking location permission'',
                     isLoading := False \<rparr>, w)
      | Resolves status \<Rightarrow>
          (let s2 = s\<lparr> permissionStatus := Some status \<rparr>
           in if status \<noteq> ''granted'' then
                (Some AwaitAnswer, s2, call_location RequestForegroundPermissions w)
              else
                (case getCurrentLocation_begin s2 w of
                   (s3, w3) \<Rightarrow> (Some AwaitPosition, s3\<lparr> isLoading := False \<rparr>, w3))))"

definition checkLocationPermission_answered ::
  "string answer \<Rightarrow> location_screen \<Rightarrow> location_platform
     \<Rightarrow> location_await option \<times> location_screen \<times> location_platform" where
  "checkLocationPermission_answered asked s w =
     (case asked of
        Throws \<Rightarrow>
          (None, s\<lparr> errorMsg := Some ''Error checking location permission'',
                     isLoading := False \<rparr>, w)
      | Resolves newStatus \<Rightarrow>
          (let s3 = s\<lparr> permissionStatus := Some newStatus \<rparr>
           in if newStatus \<noteq> ''granted'' then
                (None,
                 s3\<lparr> errorMsg := Some ''Permission to access location was denied'',
                      isLoading := False \<rparr>,
                 alert_location ''Location Permission Required''
                   ''This app needs location access to show your current position. Please enable location in your device settings.''
                   w)
              else
                (case getCurrentLocation_begin s3 w of
                   (s4, w4) \<Rightarrow> (Some AwaitPosition, s4\<lparr> isLoading := False \<rparr>, w4))))"

text \<open>
  \<open>watchLocation\<close>: lines 124-136 up to the call (the stop branch returns before it),
  and lines 154-161 after it.  The first part is the only code of the handlers that
  reads the state: it reads \<open>isTracking\<close> and \<open>locationSubscription\<close> as they were in
  the render \<open>c\<close> whose button was pressed, and its setters act on the current state
  \<open>s\<close>.  The subscription is live in the subsystem from the moment
  \<open>watchPositionAsync\<close> resolves.
\<close>

definition watchLocation_begin ::
  "location_screen \<Rightarrow> location_screen \<Rightarrow> location_platform
     \<Rightarrow> location_await option \<times> location_screen \<times> location_platform" where
  "watchLocation_begin c s w =
     (if isTracking c then
        (case locationSubscription c of
           Some h \<Rightarrow>
             (None, s\<lparr> locationSubscription := None, isTracking := False \<rparr>, remove_sub h w)
         | None \<Rightarrow> (None, s\<lparr> isTracking := False \<rparr>, w))
      else (Some AwaitWatch, s\<lparr> isLoading := True \<rparr>, call_location WatchPosition w))"

definition watchLocation_settle ::
  "unit answer \<Rightarrow> location_screen \<Rightarrow> location_platform
     \<Rightarrow> location_screen \<times> location_platform" where
  "watchLocation_settle r s w =
     (case r of
        Resolves _ \<Rightarrow>
          (case subscribe w of
             (subscription, w2) \<Rightarrow>
               (s\<lparr> locationSubscription := Some subscription, isTracking := True,
                    isLoading := False \<rparr>, w2))
      | Throws \<Rightarrow>
          (s\<lparr> errorMsg := Some ''Unable to watch location'', isLoading := False \<rparr>, w))"

subsection \<open>What the screen offers\<close>

text \<open>
  The three returns of the render (lines 183-224): the buttons \<open>Get Current\<close>,
  \<open>Retry\<close> and \<open>Start/Stop Tracking\<close> exist only in the last one, the button
  \<open>Grant Location Permission\<close> only in the second.
\<close>

datatype location_view = CheckingLocationPermissions | LocationPermissionRequired | LocationMain

definition location_render :: "location_screen \<Rightarrow> location_view" where
  "location_render s =
     (if permissionStatus s = None then CheckingLocationPermissions
      else if permissionStatus s \<noteq> Some ''granted'' then LocationPermissionRequired
      else LocationMain)"

subsection \<open>The running component\<close>

text \<open>
  The component with what the platform still owes it.  A setter changes the state at
  once, but the component is rendered again, and its effects re-run, only later: until
  then the user sees, and the handlers of the buttons and the cleanup of the
  subscription effect close over, the state of the last render.  Also kept are the
  awaits that have not settled yet, and whether the component is still mounted.
\<close>

record location_app =
  screen :: location_screen
  rendered :: location_screen
  platform :: location_platform
  pending :: "location_await list"
  mounted :: bool

text \<open>
  The component right after its mount: it has been rendered with the initial state, and
  the effect of lines 55-57 has started \<open>checkLocationPermission\<close>, which waits for the
  status.
\<close>

definition initial_location_app :: location_app where
  "initial_location_app =
     (case checkLocationPermission_begin initial_location_screen initial_location_platform of
        (s, w) \<Rightarrow>
          \<lparr> screen = s, rendered = initial_location_screen, platform = w,
            pending = [AwaitRead], mounted = True \<rparr>)"

text \<open>
  What can happen next: a pending await settles with an answer, the user presses a
  button, the subsystem delivers a position to the callback, the component is rendered
  again, or it unmounts.
\<close>

datatype location_event =
    PermissionsRead "string answer"
  | PermissionsAnswered "string answer"
  | PositionSettles "location_object answer"
  | WatchSettles "unit answer"
  | PressGrantLocation
  | PressGetCurrent
  | PressRetry
  | PressTracking
  | Delivery location_object
  | Render
  | Unmount

definition settles :: "location_event \<Rightarrow> location_await option" where
  "settles ev =
     (case ev of
        PermissionsRead _ \<Rightarrow> Some AwaitRead
      | PermissionsAnswered _ \<Rightarrow> Some AwaitAnswer
      | PositionSettles _ \<Rightarrow> Some AwaitPosition
      | WatchSettles _ \<Rightarrow> Some AwaitWatch
      | _ \<Rightarrow> None)"

text \<open>
  An answer needs an await of its kind that is pending, and is taken whether or not the
  component is still mounted; every other event needs the mounted component.
\<close>

definition possible :: "location_event \<Rightarrow> location_app \<Rightarrow> bool" where
  "possible ev a =
     (case settles ev of
        Some k \<Rightarrow> k \<in> set (pending a)
      | None \<Rightarrow> mounted a)"

text \<open>
  The code that an event runs, up to its next await, with the last render \<open>c\<close> and the
  current state \<open>s\<close>.  A press on a button that the last render does not show, or
  shows disabled, does nothing.  The tracking button (lines 333-336) and the button
  \<open>Get Current\<close> are never disabled.  The callback of lines 142-151 takes every
  delivery.  A new render re-runs the subscription effect, and the unmount runs the
  cleanup of the last render.
\<close>

definition location_handler ::
  "location_event \<Rightarrow> location_screen \<Rightarrow> location_screen \<Rightarrow> location_platform
     \<Rightarrow> location_await option \<times> location_screen \<times> location_platform" where
  "location_handler ev c s w =
     (case ev of
        PermissionsRead got \<Rightarrow> checkLocationPermission_read got s w
      | PermissionsAnswered asked \<Rightarrow> checkLocationPermission_answered asked s w
      | PositionSettles r \<Rightarrow> (None, getCurrentLocation_settle r s, w)
      | WatchSettles r \<Rightarrow> (case watchLocation_settle r s w of (s', w') \<Rightarrow> (None, s', w'))
      | PressGrantLocation \<Rightarrow>
          (if location_render c = LocationPermissionRequired \<and> \<not> isLoading c
           then (case checkLocationPermission_begin s w of (s', w') \<Rightarrow> (Some AwaitRead, s', w'))
           else (None, s, w))
      | PressGetCurrent \<Rightarrow>
          (if location_render c = LocationMain
           then (case getCurrentLocation_begin s w of (s', w') \<Rightarrow> (Some AwaitPosition, s', w'))
           else (None, s, w))
      | PressRetry \<Rightarrow>
          (if location_render c = LocationMain \<and> errorMsg c \<noteq> None \<and> errorMsg c \<noteq> Some []
           then (case getCurrentLocation_begin s w of (s', w') \<Rightarrow> (Some AwaitPosition, s', w'))
           else (None, s, w))
      | PressTracking \<Rightarrow>
          (if location_render c = LocationMain then watchLocation_begin c s w else (None, s, w))
      | Delivery newLocation \<Rightarrow> (None, onNewLocation newLocation s, w)
      | Render \<Rightarrow> (None, s, rerun_effect c s w)
      | Unmount \<Rightarrow> (None, s, cleanup c w))"

text \<open>
  One event.  The state of a component that is no longer mounted does not change any
  more, but what its handlers do to the platform still happens.
\<close>

definition location_step :: "location_event \<Rightarrow> location_app \<Rightarrow> location_app" where
  "location_step ev a =
     (if \<not> possible ev a then a
      else
        (case location_handler ev (rendered a) (screen a) (platform a) of
           (k, s', w') \<Rightarrow>
             a\<lparr> screen := (if mounted a then s' else screen a),
                rendered := (if ev = Render then screen a else rendered a),
                platform := w',
                pending :=
                  (case settles ev of None \<Rightarrow> pending a | Some j \<Rightarrow> remove1 j (pending a)) @
                  (case k of None \<Rightarrow> [] | Some n \<Rightarrow> [n]),
                mounted := (mounted a \<and> ev \<noteq> Unmount) \<rparr>))"

fun location_run :: "location_event list \<Rightarrow> location_app \<Rightarrow> location_app" where
  "location_run [] a = a"
| "location_run (ev # evs) a = location_run evs (location_step ev a)"

section \<open>The camera screen (CameraScreen)\<close>

subsection \<open>State of the component\<close>

record photo =
  uri :: string
  width :: nat
  height :: nat

text \<open>The object of the hook \<open>useCameraPermissions\<close>; the screen reads \<open>granted\<close> only.\<close>

record permission_response =
  granted :: bool

text \<open>
  The \<open>useState\<close> cells and the ref.  \<open>testMode\<close> is \<open>false\<close> (here \<open>None\<close>) or one of
  the strings \<open>'denied'\<close> and \<open>'granted'\<close>; \<open>permission\<close> is \<open>null\<close> until the hook has
  read the status; \<open>cameraRef\<close> says whether \<open>cameraRef.current\<close> is set, which it is
  exactly while a \<open>CameraView\<close> is mounted.
\<close>

record camera_screen =
  permission :: "permission_response option"
  cameraType :: string
  capturedImage :: "photo option"
  isCameraReady :: bool
  camera_isLoading :: bool
  galleryPermission :: "bool option"
  testMode :: "string option"
  cameraRef :: bool

definition initial_camera_screen :: camera_screen where
  "initial_camera_screen =
     \<lparr> permission = None, cameraType = ''back'', capturedImage = None, isCameraReady = False,
       camera_isLoading = False, galleryPermission = None, testMode = None, cameraRef = False \<rparr>"

subsection \<open>The platform seen from the screen\<close>

type_synonym asset = nat

datatype camera_call =
    MediaGetPermissions
  | MediaRequestPermissions
  | RequestCameraPermission
  | TakePicture
  | LaunchImageLibrary
  | CreateAsset string
  | CreateAlbum string asset

record camera_platform =
  camera_calls :: "camera_call list"
  camera_alerts :: "(string \<times> string) list"

definition initial_camera_platform :: camera_platform where
  "initial_camera_platform = \<lparr> camera_calls = [], camera_alerts = [] \<rparr>"

definition call_camera :: "camera_call \<Rightarrow> camera_platform \<Rightarrow> camera_platform" where
  "call_camera c w = w\<lparr> camera_calls := camera_calls w @ [c] \<rparr>"

definition alert_camera :: "string \<Rightarrow> string \<Rightarrow> camera_platform \<Rightarrow> camera_platform" where
  "alert_camera title msg w = w\<lparr> camera_alerts := camera_alerts w @ [(title, msg)] \<rparr>"

subsection \<open>The handlers\<close>

text \<open>\<open>checkGalleryPermission\<close> (lines 31-39): reads the status, never asks.\<close>

definition checkGalleryPermission ::
  "string answer \<Rightarrow> camera_screen \<Rightarrow> camera_platform \<Rightarrow> camera_screen \<times> camera_platform" where
  "checkGalleryPermission got s w =
     (let w1 = call_camera MediaGetPermissions w
      in case got of
           Resolves status \<Rightarrow> (s\<lparr> galleryPermission := Some (status = ''granted'') \<rparr>, w1)
         | Throws \<Rightarrow> (s\<lparr> galleryPermission := Some False \<rparr>, w1))"

text \<open>
  \<open>requestGalleryPermission\<close> (lines 41-51): asks without reading anything first;
  the first component is the value returned.
\<close>

definition requestGalleryPermission ::
  "string answer \<Rightarrow> camera_screen \<Rightarrow> camera_platform
     \<Rightarrow> bool \<times> camera_screen \<times> camera_platform" where
  "requestGalleryPermission asked s w =
     (let w1 = call_camera MediaRequestPermissions w
      in case asked of
           Resolves status \<Rightarrow>
             (status = ''granted'', s\<lparr> galleryPermission := Some (status = ''granted'') \<rparr>, w1)
         | Throws \<Rightarrow> (False, s\<lparr> galleryPermission := Some False \<rparr>, w1))"

text \<open>
  \<open>handlePermissionRequest\<close> (lines 53-73).  \<open>requestPermission\<close> is the second
  component of the hook; the hook keeps the response it hands back as the new
  \<open>permission\<close>.
\<close>

definition handlePermissionRequest ::
  "permission_response answer \<Rightarrow> camera_screen \<Rightarrow> camera_platform
     \<Rightarrow> camera_screen \<times> camera_platform" where
  "handlePermissionRequest asked s w =
     (let s1 = s\<lparr> camera_isLoading := True \<rparr>;
          w1 = call_camera RequestCameraPermission w
      in case asked of
           Resolves result \<Rightarrow>
             (s1\<lparr> permission := Some result, camera_isLoading := False \<rparr>,
              if granted result
              then alert_camera ''Success'' ''Camera permission granted!'' w1
              else alert_camera ''Permission Required''
                     ''Camera access is required to take photos. Please enable camera permission in your device settings.''
                     w1)
         | Throws \<Rightarrow>
             (s1\<lparr> camera_isLoading := False \<rparr>,
              alert_camera ''Error'' ''Failed to request camera permission'' w1))"

text \<open>\<open>permission?.granted\<close>\<close>

definition permission_granted :: "camera_screen \<Rightarrow> bool" where
  "permission_granted s = (case permission s of None \<Rightarrow> False | Some p \<Rightarrow> granted p)"

text \<open>\<open>takePicture\<close> (lines 75-92).\<close>

definition takePicture ::
  "photo answer \<Rightarrow> camera_screen \<Rightarrow> camera_platform \<Rightarrow> camera_screen \<times> camera_platform" where
  "takePicture r s w =
     (if \<not> cameraRef s \<or> \<not> permission_granted s then (s, w)
      else
        (let s1 = s\<lparr> camera_isLoading := True \<rparr>;
             w1 = call_camera TakePicture w
         in case r of
              Resolves photo \<Rightarrow> (s1\<lparr> capturedImage := Some photo, camera_isLoading := False \<rparr>, w1)
            | Throws \<Rightarrow>
                (s1\<lparr> camera_isLoading := False \<rparr>,
                 alert_camera ''Error'' ''Failed to take picture'' w1)))"

text \<open>
  \<open>pickImageFromGallery\<close> (lines 94-114); the picker resolves with \<open>None\<close> when the
  user cancels and with the first asset otherwise.
\<close>

definition pickImageFromGallery ::
  "photo option answer \<Rightarrow> camera_screen \<Rightarrow> camera_platform
     \<Rightarrow> camera_screen \<times> camera_platform" where
  "pickImageFromGallery r s w =
     (let s1 = s\<lparr> camera_isLoading := True \<rparr>;
          w1 = call_camera LaunchImageLibrary w
      in case r of
           Resolves None \<Rightarrow> (s1\<lparr> camera_isLoading := False \<rparr>, w1)
         | Resolves (Some picked) \<Rightarrow>
             (s1\<lparr> capturedImage := Some picked, camera_isLoading := False \<rparr>, w1)
         | Throws \<Rightarrow>
             (s1\<lparr> camera_isLoading := False \<rparr>,
              alert_camera ''Error'' ''Failed to pick image from gallery'' w1))"

text \<open>
  \<open>saveToGallery\<close> (lines 116-143).  \<open>save_image\<close> is its \<open>try\<close> block (lines
  131-142): the asset is created, then put into the album, and either call may reject.
\<close>

definition save_image ::
  "photo \<Rightarrow> asset answer \<Rightarrow> unit answer \<Rightarrow> camera_screen \<Rightarrow> camera_platform
     \<Rightarrow> camera_screen \<times> camera_platform" where
  "save_image img created added s w =
     (let s1 = s\<lparr> camera_isLoading := True \<rparr>;
          w1 = call_camera (CreateAsset (uri img)) w
      in case created of
           Throws \<Rightarrow>
             (s1\<lparr> camera_isLoading := False \<rparr>,
              alert_camera ''Error'' ''Failed to save image to gallery'' w1)
         | Resolves a \<Rightarrow>
             (let w2 = call_camera (CreateAlbum ''MyAppCamera'' a) w1
              in case added of
                   Throws \<Rightarrow>
                     (s1\<lparr> camera_isLoading := False \<rparr>,
                      alert_camera ''Error'' ''Failed to save image to gallery'' w2)
                 | Resolves _ \<Rightarrow>
                     (s1\<lparr> camera_isLoading := False \<rparr>,
                      alert_camera ''Success'' ''Image saved to gallery!'' w2)))"

definition saveToGallery ::
  "string answer \<Rightarrow> asset answer \<Rightarrow> unit answer \<Rightarrow> camera_screen \<Rightarrow> camera_platform
     \<Rightarrow> camera_screen \<times> camera_platform" where
  "saveToGallery asked created added s w =
     (case capturedImage s of
        None \<Rightarrow> (s, w)
      | Some img \<Rightarrow>
          (if galleryPermission s \<noteq> Some True then
             (case requestGalleryPermission asked s w of
                (ok, s0, w0) \<Rightarrow>
                  (if \<not> ok then
                     (s0, alert_camera ''Permission Required''
                            ''Gallery access is required to save photos. Please enable storage permission in settings.''
                            w0)
                   else save_image img created added s0 w0))
           else save_image img created added s w))"

text \<open>\<open>toggleCameraType\<close> (lines 145-147) and \<open>resetCamera\<close> (lines 149-151).\<close>

definition toggleCameraType :: "camera_screen \<Rightarrow> camera_screen" where
  "toggleCameraType s =
     s\<lparr> cameraType := (if cameraType s = ''back'' then ''front'' else ''back'') \<rparr>"

definition resetCamera :: "camera_screen \<Rightarrow> camera_screen" where
  "resetCamera s = s\<lparr> capturedImage := None \<rparr>"

text \<open>The \<open>onCameraReady\<close> callback handed to \<open>CameraView\<close> (line 260).\<close>

definition onCameraReady :: "camera_screen \<Rightarrow> camera_screen" where
  "onCameraReady s = s\<lparr> isCameraReady := True \<rparr>"

subsection \<open>What the screen shows\<close>

text \<open>
  The chain of returns of the render (lines 153-254).  \<open>CameraView\<close> is part of the
  last one only.
\<close>

datatype camera_view =
    CheckingPermissions
  | TestDeniedView
  | CameraPermissionRequired
  | ImagePreview
  | CameraLive

definition camera_render :: "camera_screen \<Rightarrow> camera_view" where
  "camera_render s =
     (case permission s of
        None \<Rightarrow> CheckingPermissions
      | Some p \<Rightarrow>
          (if testMode s = Some ''denied'' then TestDeniedView
           else if testMode s = Some ''granted'' \<or> \<not> granted p then CameraPermissionRequired
           else if capturedImage s \<noteq> None then ImagePreview
           else CameraLive))"

text \<open>
  The capture button is part of the live camera view and is disabled until
  \<open>isCameraReady\<close> (lines 268-272): this is when the screen can take a picture.
\<close>

definition capture_enabled :: "camera_screen \<Rightarrow> bool" where
  "capture_enabled s = (camera_render s = CameraLive \<and> isCameraReady s)"

datatype camera_event =
    CameraMount "string answer"
  | PermissionLoaded permission_response
  | PressSimulateDenied
  | PressSimulateGranted
  | PressTestGrant
  | PressExitTestMode
  | PressGrantCamera "permission_response answer"
  | CameraReady
  | PressCapture "photo answer"
  | PressPick "photo option answer"
  | PressToggle
  | PressRetake
  | PressSave "string answer" "asset answer" "unit answer"

text \<open>
  One event run to completion.  A press on a button that the current render does not
  show, or shows disabled, does nothing; the readiness callback comes from a mounted
  \<open>CameraView\<close>.
\<close>

definition camera_handler ::
  "camera_event \<Rightarrow> camera_screen \<Rightarrow> camera_platform \<Rightarrow> camera_screen \<times> camera_platform" where
  "camera_handler ev s w =
     (case ev of
        CameraMount got \<Rightarrow> checkGalleryPermission got s w
      | PermissionLoaded p \<Rightarrow> (s\<lparr> permission := Some p \<rparr>, w)
      | PressSimulateDenied \<Rightarrow>
          (if camera_render s = CheckingPermissions
           then (s\<lparr> testMode := Some ''denied'' \<rparr>, w) else (s, w))
      | PressSimulateGranted \<Rightarrow>
          (if camera_render s = CheckingPermissions
           then (s\<lparr> testMode := Some ''granted'' \<rparr>, w) else (s, w))
      | PressTestGrant \<Rightarrow>
          (if camera_render s = TestDeniedView
           then (s\<lparr> testMode := Some ''granted'' \<rparr>, w) else (s, w))
      | PressExitTestMode \<Rightarrow>
          (if camera_render s = TestDeniedView then (s\<lparr> testMode := None \<rparr>, w) else (s, w))
      | PressGrantCamera asked \<Rightarrow>
          (if camera_render s = CameraPermissionRequired \<and> \<not> camera_isLoading s
           then handlePermissionRequest asked s w else (s, w))
      | CameraReady \<Rightarrow>
          (if camera_render s = CameraLive then (onCameraReady s, w) else (s, w))
      | PressCapture r \<Rightarrow> (if capture_enabled s then takePicture r s w else (s, w))
      | PressPick r \<Rightarrow>
          (if camera_render s = CameraLive then pickImageFromGallery r s w else (s, w))
      | PressToggle \<Rightarrow>
          (if camera_render s = CameraLive then (toggleCameraType s, w) else (s, w))
      | PressRetake \<Rightarrow>
          (if camera_render s = ImagePreview then (resetCamera s, w) else (s, w))
      | PressSave asked created added \<Rightarrow>
          (if camera_render s = ImagePreview then saveToGallery asked created added s w
           else (s, w)))"

text \<open>After the handler the new render is committed: the ref follows the \<open>CameraView\<close>.\<close>

definition camera_step ::
  "camera_event \<Rightarrow> camera_screen \<times> camera_platform \<Rightarrow> camera_screen \<times> camera_platform" where
  "camera_step ev sw =
     (case sw of (s, w) \<Rightarrow>
        (case camera_handler ev s w of
           (s', w') \<Rightarrow> (s'\<lparr> cameraRef := (camera_render s' = CameraLive) \<rparr>, w')))"

fun camera_run ::
  "camera_event list \<Rightarrow> camera_screen \<times> camera_platform
     \<Rightarrow> camera_screen \<times> camera_platform" where
  "camera_run [] sw = sw"
| "camera_run (ev # evs) sw = camera_run evs (camera_step ev sw)"

section \<open>The login and registration screen (practice)\<close>

subsection \<open>State of the component\<close>

text \<open>
  The \<open>user\<close> object of a response.  Its JSON text is what \<open>saveUserData\<close> stores and
  \<open>loadUserData\<close> parses back; the store is modelled as holding the object itself.
\<close>

record user =
  user_name :: string
  user_email :: string

record auth_screen =
  name :: string
  email :: string
  password :: string
  isLogin :: bool
  loading :: bool
  currentUser :: "user option"

definition initial_auth_screen :: auth_screen where
  "initial_auth_screen =
     \<lparr> name = [], email = [], password = [], isLogin = True, loading = False,
       currentUser = None \<rparr>"

definition API_BASE_URL :: string where
  "API_BASE_URL = ''http://172.17.24.213:5000/api''"

subsection \<open>The platform seen from the screen\<close>

text \<open>
  A settled \<open>fetch\<close> whose body parsed as JSON: \<open>response.ok\<close> and the fields
  \<open>message\<close> and \<open>user\<close> of the body, each of which may be missing.  A rejected
  \<open>fetch\<close> and a body that does not parse both end in the handler's \<open>catch\<close>.
\<close>

record response_data =
  message :: "string option"
  user :: "user option"

record response =
  ok :: bool
  data :: response_data

datatype request_body =
    LoginBody string string
  | RegisterBody string string string

record auth_platform =
  secure_store :: "string \<Rightarrow> user option"
  posts :: "(string \<times> request_body) list"
  auth_alerts :: "(string \<times> string option) list"

definition initial_auth_platform :: auth_platform where
  "initial_auth_platform = \<lparr> secure_store = (\<lambda>k. None), posts = [], auth_alerts = [] \<rparr>"

definition alert_auth :: "string \<Rightarrow> string option \<Rightarrow> auth_platform \<Rightarrow> auth_platform" where
  "alert_auth title msg w = w\<lparr> auth_alerts := auth_alerts w @ [(title, msg)] \<rparr>"

definition post :: "string \<Rightarrow> request_body \<Rightarrow> auth_platform \<Rightarrow> auth_platform" where
  "post url body w = w\<lparr> posts := posts w @ [(url, body)] \<rparr>"

subsection \<open>The handlers\<close>

text \<open>\<open>loadUserData\<close> (lines 21-32); a rejected read is logged and changes nothing.\<close>

definition loadUserData :: "unit answer \<Rightarrow> auth_screen \<Rightarrow> auth_platform \<Rightarrow> auth_screen" where
  "loadUserData read s w =
     (case read of
        Throws \<Rightarrow> s
      | Resolves _ \<Rightarrow>
          (case secure_store w ''userData'' of
             None \<Rightarrow> s
           | Some u \<Rightarrow> s\<lparr> currentUser := Some u \<rparr>))"

text \<open>
  \<open>saveUserData\<close> (lines 34-41); a rejected write is logged and changes nothing, and
  there is nothing to write when the response carried no \<open>user\<close>
  (\<open>JSON.stringify(undefined)\<close> is not a string).
\<close>

definition saveUserData :: "unit answer \<Rightarrow> user option \<Rightarrow> auth_platform \<Rightarrow> auth_platform" where
  "saveUserData written u w =
     (case written of
        Throws \<Rightarrow> w
      | Resolves _ \<Rightarrow>
          (case u of
             None \<Rightarrow> w
           | Some v \<Rightarrow> w\<lparr> secure_store := (secure_store w)(''userData'' := Some v) \<rparr>))"

text \<open>\<open>clearUserData\<close> (lines 43-50).\<close>

definition clearUserData :: "unit answer \<Rightarrow> auth_platform \<Rightarrow> auth_platform" where
  "clearUserData deleted w =
     (case deleted of
        Throws \<Rightarrow> w
      | Resolves _ \<Rightarrow> w\<lparr> secure_store := (secure_store w)(''userData'' := None) \<rparr>)"

text \<open>
  \<open>handleSubmit\<close> (lines 52-98).  The first answer is that of the \<open>fetch\<close> with the
  parse of its body, the second that of the write to the secure store.
\<close>

definition handleSubmit ::
  "response answer \<Rightarrow> unit answer \<Rightarrow> auth_screen \<Rightarrow> auth_platform
     \<Rightarrow> auth_screen \<times> auth_platform" where
  "handleSubmit fetched written s w =
     (if email s = [] \<or> password s = [] \<or> (\<not> isLogin s \<and> name s = []) then
        (s, alert_auth ''Error'' (Some ''Please fill in all fields'') w)
      else
        (let s1 = s\<lparr> loading := True \<rparr>;
             endpoint = (if isLogin s then ''/login'' else ''/register'');
             body = (if isLogin s then LoginBody (email s) (password s)
                     else RegisterBody (name s) (email s) (password s));
             w1 = post (API_BASE_URL @ endpoint) body w
         in case fetched of
              Throws \<Rightarrow>
                (s1\<lparr> loading := False \<rparr>,
                 alert_auth ''Error''
                   (Some ''Network error. Please make sure the backend server is running.'') w1)
            | Resolves resp \<Rightarrow>
                (if ok resp then
                   (let w2 = alert_auth ''Success'' (message (data resp)) w1
                    in if isLogin s then
                         (s1\<lparr> currentUser := user (data resp), email := [], password := [],
                              loading := False \<rparr>,
                          saveUserData written (user (data resp)) w2)
                       else
                         (s1\<lparr> isLogin := True, password := [], loading := False \<rparr>, w2))
                 else
                   (s1\<lparr> loading := False \<rparr>,
                    alert_auth ''Error''
                      (Some (case message (data resp) of
                               None \<Rightarrow> ''Something went wrong''
                             | Some m \<Rightarrow> if m = [] then ''Something went wrong'' else m))
                      w1))))"

text \<open>\<open>toggleMode\<close> (lines 100-103) and \<open>handleLogout\<close> (lines 105-109).\<close>

definition toggleMode :: "auth_screen \<Rightarrow> auth_screen" where
  "toggleMode s = s\<lparr> isLogin := \<not> isLogin s, password := [] \<rparr>"

definition handleLogout ::
  "unit answer \<Rightarrow> auth_screen \<Rightarrow> auth_platform \<Rightarrow> auth_screen \<times> auth_platform" where
  "handleLogout deleted s w =
     (s\<lparr> currentUser := None \<rparr>,
      alert_auth ''Logged Out'' (Some ''You have been logged out successfully'')
        (clearUserData deleted w))"

section \<open>Properties of the location screen\<close>

lemmas location_defs =
  location_step_def location_handler_def location_render_def possible_def settles_def
  rerun_effect_def cleanup_def
  watchLocation_def getCurrentLocation_def checkLocationPermission_def onNewLocation_def
  watchLocation_begin_def watchLocation_settle_def getCurrentLocation_begin_def
  getCurrentLocation_settle_def checkLocationPermission_begin_def
  checkLocationPermission_read_def checkLocationPermission_answered_def
  subscribe_def remove_sub_def call_location_def alert_location_def
  initial_location_app_def initial_location_screen_def initial_location_platform_def

subsection \<open>The parts make up the handlers\<close>

text \<open>Run without interruption, the parts of a handler give the handler.\<close>

lemma getCurrentLocation_cut:
  "getCurrentLocation r s w =
     (case getCurrentLocation_begin s w of (s1, w1) \<Rightarrow> (getCurrentLocation_settle r s1, w1))"
  by (simp add: getCurrentLocation_def getCurrentLocation_begin_def getCurrentLocation_settle_def
           split: answer.splits)

lemma watchLocation_cut:
  "watchLocation r s w =
     (case watchLocation_begin s s w of
        (None, s1, w1) \<Rightarrow> (s1, w1)
      | (Some k, s1, w1) \<Rightarrow> watchLocation_settle r s1 w1)"
  by (simp add: watchLocation_def watchLocation_begin_def watchLocation_settle_def
           split: answer.splits option.splits)

lemma checkLocationPermission_cut:
  "checkLocationPermission got asked pos s w =
     (case checkLocationPermission_begin s w of
        (s1, w1) \<Rightarrow>
          (case checkLocationPermission_read got s1 w1 of
             (None, s2, w2) \<Rightarrow> (s2, w2)
           | (Some AwaitAnswer, s2, w2) \<Rightarrow>
               (case checkLocationPermission_answered asked s2 w2 of
                  (None, s3, w3) \<Rightarrow> (s3, w3)
                | (Some k, s3, w3) \<Rightarrow> (getCurrentLocation_settle pos s3, w3))
           | (Some k, s2, w2) \<Rightarrow> (getCurrentLocation_settle pos s2, w2)))"
  by (cases got; cases asked; cases pos)
     (simp_all add: checkLocationPermission_def checkLocationPermission_begin_def
                    checkLocationPermission_read_def checkLocationPermission_answered_def
                    getCurrentLocation_def getCurrentLocation_begin_def
                    getCurrentLocation_settle_def Let_def)

text \<open>
  The tracking button stays enabled while \<open>watchPositionAsync\<close> is pending.  A second
  press then still sees \<open>isTracking\<close> false and asks for a second subscription.  When
  both requests resolve before the component is rendered again, the screen holds the
  second subscription, the cleanup of the last render holds none, and both
  subscriptions stay live.  When a render comes between the two answers, its effect
  cancels the first subscription, after the second has become live.
\<close>

lemma two_presses_two_subscriptions:
  "live_subs (platform (location_run
      [PermissionsRead (Resolves ''granted''), Render, PressTracking, PressTracking,
       WatchSettles (Resolves ()), WatchSettles (Resolves ()), Render]
      initial_location_app)) = [1, 0] \<and>
   locationSubscription (screen (location_run
      [PermissionsRead (Resolves ''granted''), Render, PressTracking, PressTracking,
       WatchSettles (Resolves ()), WatchSettles (Resolves ()), Render]
      initial_location_app)) = Some 1 \<and>
   live_subs (platform (location_run
      [PermissionsRead (Resolves ''granted''), Render, PressTracking, PressTracking,
       WatchSettles (Resolves ()), Render, WatchSettles (Resolves ())]
      initial_location_app)) = [1, 0] \<and>
   live_subs (platform (location_run
      [PermissionsRead (Resolves ''granted''), Render, PressTracking, PressTracking,
       WatchSettles (Resolves ()), Render, WatchSettles (Resolves ()), Render]
      initial_location_app)) = [1]"
  by (simp add: location_defs)

text \<open>
  C1 (as the code has it).  \<open>watchLocation\<close> is a start/stop toggle, in every state.
  Called while tracking, it cancels the subscription the screen holds, starts none,
  makes no call to the location module and finishes without an await.  Called while
  not tracking, it calls \<open>watchPositionAsync\<close> once and waits; when the request
  resolves the screen holds the new subscription, which is live, and is tracking; when
  it rejects nothing is started.  Nothing is said here about how many subscriptions are
  live.
\<close>

theorem watchLocation_is_a_toggle:
  "(case watchLocation r s w of
      (s', w') \<Rightarrow>
        (if isTracking s then
           \<not> isTracking s' \<and> locationSubscription s' = None \<and>
           location_calls w' = location_calls w \<and>
           (case locationSubscription s of
              Some h \<Rightarrow> live_subs w' = removeAll h (live_subs w)
            | None \<Rightarrow> live_subs w' = live_subs w)
         else
           location_calls w' = location_calls w @ [WatchPosition] \<and>
           (case r of
              Resolves u \<Rightarrow>
                locationSubscription s' = Some (next_sub w) \<and> isTracking s' \<and>
                live_subs w' = next_sub w # live_subs w
            | Throws \<Rightarrow>
                locationSubscription s' = locationSubscription s \<and> \<not> isTracking s' \<and>
                live_subs w' = live_subs w))) \<and>
   (if isTracking s
    then fst (watchLocation_begin s s w) = None \<and>
         snd (watchLocation_begin s s w) = watchLocation r s w
    else fst (watchLocation_begin s s w) = Some AwaitWatch \<and>
         (case snd (watchLocation_begin s s w) of
            (s1, w1) \<Rightarrow> watchLocation_settle r s1 w1 = watchLocation r s w))"
  by (cases r; cases "locationSubscription s")
     (simp_all add: watchLocation_def watchLocation_begin_def watchLocation_settle_def
                    subscribe_def remove_sub_def call_location_def)

text \<open>
  The screen after permission has been granted and tracking has been started: it is
  tracking with subscription 0 live, and \<open>watchLocation\<close> leaves none.
\<close>

theorem watchLocation_is_a_toggle_witness:
  "isTracking (screen (location_run
      [PermissionsRead (Resolves ''granted''), Render, PressTracking, WatchSettles (Resolves ()),
          Render]
      initial_location_app)) \<and>
   live_subs (platform (location_run
      [PermissionsRead (Resolves ''granted''), Render, PressTracking, WatchSettles (Resolves ()),
          Render]
      initial_location_app)) = [0] \<and>
   live_subs (snd (watchLocation (Resolves ())
      (screen (location_run
         [PermissionsRead (Resolves ''granted''), Render, PressTracking, WatchSettles (Resolves ()),
          Render]
         initial_location_app))
      (platform (location_run
         [PermissionsRead (Resolves ''granted''), Render, PressTracking, WatchSettles (Resolves ()),
          Render]
         initial_location_app)))) = []"
  using watchLocation_is_a_toggle
    [where r = "Resolves ()"
       and s = "screen (location_run
         [PermissionsRead (Resolves ''granted''), Render, PressTracking, WatchSettles (Resolves ()),
          Render]
         initial_location_app)"
       and w = "platform (location_run
         [PermissionsRead (Resolves ''granted''), Render, PressTracking, WatchSettles (Resolves ()),
          Render]
         initial_location_app)"]
  by (simp add: location_defs)

text \<open>
  C1 as stated fails: the press while subscription 0 is active cancels it, and no new
  subscription is started or asked for (\<open>watchPositionAsync\<close> was called once in the
  whole run, and no request for a subscription is pending).
\<close>

theorem watch_while_tracking_starts_no_subscription:
  "live_subs (platform (location_run
      [PermissionsRead (Resolves ''granted''), Render, PressTracking, WatchSettles (Resolves ()),
          Render]
      initial_location_app)) = [0] \<and>
   live_subs (platform (location_run
      [PermissionsRead (Resolves ''granted''), Render, PressTracking, WatchSettles (Resolves ()),
       Render, PressTracking] initial_location_app)) = [] \<and>
   pending (location_run
      [PermissionsRead (Resolves ''granted''), Render, PressTracking, WatchSettles (Resolves ()),
       Render, PressTracking] initial_location_app) = [AwaitPosition] \<and>
   location_calls (platform (location_run
      [PermissionsRead (Resolves ''granted''), Render, PressTracking, WatchSettles (Resolves ()),
       Render, PressTracking] initial_location_app)) =
     [GetForegroundPermissions, GetCurrentPosition, WatchPosition]"
  by (simp add: location_defs)












text \<open>
  C5 fails on the code.  Tracking is started and the component unmounts while
  \<open>watchPositionAsync\<close> is pending: the cleanup of the last render finds no
  subscription and cancels nothing, and the subscription that the request then resolves
  with stays live with no component left to cancel it.
\<close>

theorem unmount_while_watch_pending_leaks:
  "locationSubscription (screen (location_run
      [PermissionsRead (Resolves ''granted''), Render, PressTracking] initial_location_app)) = None \<and>
   pending (location_run
      [PermissionsRead (Resolves ''granted''), Render, PressTracking] initial_location_app) =
     [AwaitPosition, AwaitWatch] \<and>
   live_subs (platform (location_run
      [PermissionsRead (Resolves ''granted''), Render, PressTracking, Unmount] initial_location_app)) = [] \<and>
   \<not> mounted (location_run
      [PermissionsRead (Resolves ''granted''), Render, PressTracking, Unmount,
       WatchSettles (Resolves ())]
      initial_location_app) \<and>
   live_subs (platform (location_run
      [PermissionsRead (Resolves ''granted''), Render, PressTracking, Unmount,
       WatchSettles (Resolves ())]
      initial_location_app)) = [0]"
  by (simp add: location_defs)

text \<open>
  What the cleanup does do: run twice it does what it does once, and the subscription of
  the render it closes over is not live afterwards.
\<close>

lemma cleanup_twice: "cleanup s (cleanup s w) = cleanup s w"
  by (simp add: cleanup_def remove_sub_def split: option.splits)

lemma cleanup_held:
  "case locationSubscription s of
     None \<Rightarrow> cleanup s w = w
   | Some h \<Rightarrow> h \<notin> set (live_subs (cleanup s w))"
  by (simp add: cleanup_def remove_sub_def split: option.splits)

section \<open>Properties of the permission flows\<close>

lemmas camera_defs =
  camera_step_def camera_handler_def camera_render_def capture_enabled_def
  checkGalleryPermission_def requestGalleryPermission_def handlePermissionRequest_def
  permission_granted_def takePicture_def pickImageFromGallery_def save_image_def
  saveToGallery_def toggleCameraType_def resetCamera_def onCameraReady_def
  call_camera_def alert_camera_def initial_camera_screen_def initial_camera_platform_def











lemma checkLocationPermission_status:
  "permissionStatus (fst (checkLocationPermission got asked pos s w)) =
     (case got of
        Throws \<Rightarrow> permissionStatus s
      | Resolves status \<Rightarrow>
          (if status = ''granted'' then Some status
           else (case asked of Throws \<Rightarrow> Some status | Resolves newStatus \<Rightarrow> Some newStatus)))"
  by (simp add: checkLocationPermission_def getCurrentLocation_def call_location_def
                alert_location_def Let_def
           split: answer.splits)

lemma checkLocationPermission_again:
  "permissionStatus
     (fst (checkLocationPermission got asked pos2
             (fst (checkLocationPermission got asked pos1 s w))
             (snd (checkLocationPermission got asked pos1 s w)))) =
   permissionStatus (fst (checkLocationPermission got asked pos1 s w))"
  by (simp add: checkLocationPermission_status split: answer.splits)

lemma checkLocationPermission_resolved:
  "permissionStatus (fst (checkLocationPermission (Resolves st) (Resolves st) pos s w)) = Some st"
  by (simp add: checkLocationPermission_status)

lemma gallery_again:
  "fst (requestGalleryPermission asked
          (fst (snd (requestGalleryPermission asked cs cw)))
          (snd (snd (requestGalleryPermission asked cs cw)))) =
   fst (requestGalleryPermission asked cs cw) \<and>
   galleryPermission (fst (snd (requestGalleryPermission asked
          (fst (snd (requestGalleryPermission asked cs cw)))
          (snd (snd (requestGalleryPermission asked cs cw)))))) =
   galleryPermission (fst (snd (requestGalleryPermission asked cs cw))) \<and>
   galleryPermission (fst (checkGalleryPermission got
          (fst (checkGalleryPermission got cs cw))
          (snd (checkGalleryPermission got cs cw)))) =
   galleryPermission (fst (checkGalleryPermission got cs cw))"
  by (simp add: requestGalleryPermission_def checkGalleryPermission_def call_camera_def Let_def
           split: answer.splits)

lemma camera_again:
  "permission (fst (handlePermissionRequest answered
          (fst (handlePermissionRequest answered cs cw))
          (snd (handlePermissionRequest answered cs cw)))) =
   permission (fst (handlePermissionRequest answered cs cw))"
  by (simp add: handlePermissionRequest_def call_camera_def alert_camera_def Let_def
           split: answer.splits)

text \<open>
  C8.  A permission flow run twice in a row against a platform that answers the same
  way records, and returns, the same status both times, for each capability: location
  (\<open>checkLocationPermission\<close>), media library (\<open>requestGalleryPermission\<close>,
  \<open>checkGalleryPermission\<close>) and camera (\<open>handlePermissionRequest\<close>).  For the
  location flow also: once a run has recorded a status, a second run against a platform
  that now reports that status records it again.
\<close>

theorem permission_request_twice_same_status:
  "permissionStatus
     (fst (checkLocationPermission got asked pos2
             (fst (checkLocationPermission got asked pos1 s w))
             (snd (checkLocationPermission got asked pos1 s w)))) =
   permissionStatus (fst (checkLocationPermission got asked pos1 s w)) \<and>
   (case permissionStatus (fst (checkLocationPermission got asked pos1 s w)) of
      None \<Rightarrow> got = Throws \<and> permissionStatus s = None
    | Some st \<Rightarrow>
        permissionStatus
          (fst (checkLocationPermission (Resolves st) (Resolves st) pos2
                  (fst (checkLocationPermission got asked pos1 s w))
                  (snd (checkLocationPermission got asked pos1 s w)))) = Some st) \<and>
   fst (requestGalleryPermission asked
          (fst (snd (requestGalleryPermission asked cs cw)))
          (snd (snd (requestGalleryPermission asked cs cw)))) =
   fst (requestGalleryPermission asked cs cw) \<and>
   galleryPermission (fst (snd (requestGalleryPermission asked
          (fst (snd (requestGalleryPermission asked cs cw)))
          (snd (snd (requestGalleryPermission asked cs cw)))))) =
   galleryPermission (fst (snd (requestGalleryPermission asked cs cw))) \<and>
   galleryPermission (fst (checkGalleryPermission got
          (fst (checkGalleryPermission got cs cw))
          (snd (checkGalleryPermission got cs cw)))) =
   galleryPermission (fst (checkGalleryPermission got cs cw)) \<and>
   permission (fst (handlePermissionRequest answered
          (fst (handlePermissionRequest answered cs cw))
          (snd (handlePermissionRequest answered cs cw)))) =
   permission (fst (handlePermissionRequest answered cs cw))"
proof -
  have "case permissionStatus (fst (checkLocationPermission got asked pos1 s w)) of
      None \<Rightarrow> got = Throws \<and> permissionStatus s = None
    | Some st \<Rightarrow>
        permissionStatus
          (fst (checkLocationPermission (Resolves st) (Resolves st) pos2
                  (fst (checkLocationPermission got asked pos1 s w))
                  (snd (checkLocationPermission got asked pos1 s w)))) = Some st"
    by (simp add: checkLocationPermission_resolved checkLocationPermission_status
             split: option.splits answer.splits)
  with checkLocationPermission_again [of got asked pos2 pos1 s w]
       gallery_again [of asked cs cw got] camera_again [of answered cs cw]
  show ?thesis by blast
qed

text \<open>
  A platform that reports \<open>'denied'\<close> and answers the prompt with \<open>'denied'\<close>, twice.
\<close>

theorem permission_request_twice_same_status_witness:
  "permissionStatus
     (fst (checkLocationPermission (Resolves ''denied'') (Resolves ''denied'') Throws
             (fst (checkLocationPermission (Resolves ''denied'') (Resolves ''denied'') Throws
                     initial_location_screen initial_location_platform))
             (snd (checkLocationPermission (Resolves ''denied'') (Resolves ''denied'') Throws
                     initial_location_screen initial_location_platform)))) = Some ''denied'' \<and>
   permissionStatus
     (fst (checkLocationPermission (Resolves ''denied'') (Resolves ''denied'') Throws
             initial_location_screen initial_location_platform)) = Some ''denied''"
  using permission_request_twice_same_status
    [where got = "Resolves ''denied''" and asked = "Resolves ''denied''" and ?pos1.0 = Throws
       and ?pos2.0 = Throws and s = initial_location_screen and w = initial_location_platform]
  by (simp add: location_defs)

section \<open>Properties of the camera screen\<close>


text \<open>
  C4 as stated fails: after a successful capture the render shows the image preview, so
  the camera view is unmounted, the ref is cleared and the capture button is gone; a
  second press reaches no camera (one \<open>TakePicture\<close> call in the whole run).
\<close>

theorem capture_leaves_live_camera_view:
  "capture_enabled (fst (camera_run
      [PermissionLoaded \<lparr> granted = True \<rparr>, CameraReady]
      (initial_camera_screen, initial_camera_platform))) \<and>
   camera_render (fst (camera_run
      [PermissionLoaded \<lparr> granted = True \<rparr>, CameraReady,
       PressCapture (Resolves \<lparr> uri = ''file:///a.jpg'', width = 4, height = 3 \<rparr>)]
      (initial_camera_screen, initial_camera_platform))) = ImagePreview \<and>
   \<not> capture_enabled (fst (camera_run
      [PermissionLoaded \<lparr> granted = True \<rparr>, CameraReady,
       PressCapture (Resolves \<lparr> uri = ''file:///a.jpg'', width = 4, height = 3 \<rparr>)]
      (initial_camera_screen, initial_camera_platform))) \<and>
   \<not> cameraRef (fst (camera_run
      [PermissionLoaded \<lparr> granted = True \<rparr>, CameraReady,
       PressCapture (Resolves \<lparr> uri = ''file:///a.jpg'', width = 4, height = 3 \<rparr>)]
      (initial_camera_screen, initial_camera_platform))) \<and>
   camera_calls (snd (camera_run
      [PermissionLoaded \<lparr> granted = True \<rparr>, CameraReady,
       PressCapture (Resolves \<lparr> uri = ''file:///a.jpg'', width = 4, height = 3 \<rparr>),
       PressCapture (Resolves \<lparr> uri = ''file:///b.jpg'', width = 4, height = 3 \<rparr>)]
      (initial_camera_screen, initial_camera_platform))) = [TakePicture]"
  by (simp add: camera_defs)

text \<open>
  C4 (as the code has it).  With the permission granted and the live camera view ready,
  a capture that succeeds stores the photo the camera returned, with its URI as
  returned (non-empty when the camera's is), clears the loading flag and leaves
  \<open>isCameraReady\<close> set; the screen then shows the image preview, and the capture button
  is back after \<open>resetCamera\<close> (Retake).  A capture that fails raises the alert
  \<open>Failed to take picture\<close> and leaves the live camera view ready.
\<close>

theorem takePicture_success_shows_preview:
  assumes "capture_enabled s" and "cameraRef s" and "permission_granted s" and "uri p \<noteq> []"
  shows "(case takePicture (Resolves p) s w of
            (s', w') \<Rightarrow>
              capturedImage s' = Some p \<and> uri p \<noteq> [] \<and>
              s' = s\<lparr> capturedImage := Some p, camera_isLoading := False \<rparr> \<and>
              isCameraReady s' \<and> \<not> camera_isLoading s' \<and>
              camera_render s' = ImagePreview \<and> \<not> capture_enabled s' \<and>
              capture_enabled (resetCamera s') \<and>
              camera_calls w' = camera_calls w @ [TakePicture] \<and>
              camera_alerts w' = camera_alerts w) \<and>
         (case takePicture Throws s w of
            (s', w') \<Rightarrow>
              s' = s\<lparr> camera_isLoading := False \<rparr> \<and> capture_enabled s' \<and>
              camera_calls w' = camera_calls w @ [TakePicture] \<and>
              camera_alerts w' = camera_alerts w @ [(''Error'', ''Failed to take picture'')])"
  using assms
  by (auto simp: takePicture_def capture_enabled_def camera_render_def resetCamera_def
                 call_camera_def alert_camera_def permission_granted_def
           split: option.splits if_splits)

text \<open>
  A ready screen with granted permission and a photo with a non-empty URI.
\<close>

theorem takePicture_success_shows_preview_witness:
  "capture_enabled (initial_camera_screen\<lparr> permission := Some \<lparr> granted = True \<rparr>,
       isCameraReady := True, cameraRef := True \<rparr>) \<and>
   cameraRef (initial_camera_screen\<lparr> permission := Some \<lparr> granted = True \<rparr>,
       isCameraReady := True, cameraRef := True \<rparr>) \<and>
   permission_granted (initial_camera_screen\<lparr> permission := Some \<lparr> granted = True \<rparr>,
       isCameraReady := True, cameraRef := True \<rparr>) \<and>
   uri \<lparr> uri = ''file:///a.jpg'', width = 4, height = 3 \<rparr> \<noteq> [] \<and>
   capturedImage (fst (takePicture (Resolves \<lparr> uri = ''file:///a.jpg'', width = 4, height = 3 \<rparr>)
       (initial_camera_screen\<lparr> permission := Some \<lparr> granted = True \<rparr>,
          isCameraReady := True, cameraRef := True \<rparr>) initial_camera_platform)) =
     Some \<lparr> uri = ''file:///a.jpg'', width = 4, height = 3 \<rparr> \<and>
   camera_render (fst (takePicture (Resolves \<lparr> uri = ''file:///a.jpg'', width = 4, height = 3 \<rparr>)
       (initial_camera_screen\<lparr> permission := Some \<lparr> granted = True \<rparr>,
          isCameraReady := True, cameraRef := True \<rparr>) initial_camera_platform)) = ImagePreview"
proof -
  let ?s = "initial_camera_screen\<lparr> permission := Some \<lparr> granted = True \<rparr>,
       isCameraReady := True, cameraRef := True \<rparr>"
  let ?p = "\<lparr> uri = ''file:///a.jpg'', width = 4, height = 3 \<rparr>"
  have a: "capture_enabled ?s" by (simp add: camera_defs)
  have b: "cameraRef ?s" by (simp add: camera_defs)
  have c: "permission_granted ?s" by (simp add: camera_defs)
  have d: "uri ?p \<noteq> []" by simp
  from takePicture_success_shows_preview [OF a b c d, of initial_camera_platform] a b c d
  show ?thesis by (simp split: prod.splits)
qed

text \<open>
  C7 as stated fails: in the live camera view, before the camera has reported
  readiness, the toggle is accepted and changes the lens; and a toggle on a ready
  screen leaves \<open>isCameraReady\<close> set.
\<close>

theorem toggle_accepted_before_ready:
  "camera_render (fst (camera_run [PermissionLoaded \<lparr> granted = True \<rparr>]
      (initial_camera_screen, initial_camera_platform))) = CameraLive \<and>
   \<not> isCameraReady (fst (camera_run [PermissionLoaded \<lparr> granted = True \<rparr>]
      (initial_camera_screen, initial_camera_platform))) \<and>
   cameraType (fst (camera_run [PermissionLoaded \<lparr> granted = True \<rparr>, PressToggle]
      (initial_camera_screen, initial_camera_platform))) = ''front'' \<and>
   isCameraReady (fst (camera_run [PermissionLoaded \<lparr> granted = True \<rparr>, CameraReady, PressToggle]
      (initial_camera_screen, initial_camera_platform)))"
  by (simp add: camera_defs)

text \<open>
  C7 (as the code has it).  \<open>toggleCameraType\<close> sets \<open>cameraType\<close> to \<open>'front'\<close> when
  it is \<open>'back'\<close> and to \<open>'back'\<close> otherwise, and changes nothing else: \<open>isCameraReady\<close>,
  the render and the availability of the capture button are as before.  On \<open>'back'\<close>
  and \<open>'front'\<close> it gives the opposite lens and is its own inverse.  The button acts
  whenever the live camera view is shown, ready or not.
\<close>

theorem toggleCameraType_flips_lens_only:
  "toggleCameraType s =
     s\<lparr> cameraType := (if cameraType s = ''back'' then ''front'' else ''back'') \<rparr> \<and>
   isCameraReady (toggleCameraType s) = isCameraReady s \<and>
   capture_enabled (toggleCameraType s) = capture_enabled s \<and>
   camera_render (toggleCameraType s) = camera_render s \<and>
   (cameraType s = ''back'' \<or> cameraType s = ''front'' \<longrightarrow>
      cameraType (toggleCameraType s) \<noteq> cameraType s \<and>
      toggleCameraType (toggleCameraType s) = s) \<and>
   (camera_render s = CameraLive \<longrightarrow>
      camera_handler PressToggle s w = (toggleCameraType s, w))"
  by (auto simp: toggleCameraType_def capture_enabled_def camera_render_def camera_handler_def
           split: option.splits)

text \<open>
  The live camera view right after the permission has been granted.
\<close>

theorem toggleCameraType_flips_lens_only_witness:
  "(cameraType initial_camera_screen = ''back'' \<or> cameraType initial_camera_screen = ''front'') \<and>
   camera_render (initial_camera_screen\<lparr> permission := Some \<lparr> granted = True \<rparr> \<rparr>) = CameraLive \<and>
   cameraType (toggleCameraType (initial_camera_screen\<lparr> permission := Some \<lparr> granted = True \<rparr> \<rparr>)) = ''front'' \<and>
   toggleCameraType (toggleCameraType (initial_camera_screen\<lparr> permission := Some \<lparr> granted = True \<rparr> \<rparr>)) =
     initial_camera_screen\<lparr> permission := Some \<lparr> granted = True \<rparr> \<rparr>"
  using toggleCameraType_flips_lens_only
    [where s = "initial_camera_screen\<lparr> permission := Some \<lparr> granted = True \<rparr> \<rparr>"
       and w = initial_camera_platform]
  by (simp add: camera_defs)

lemma saveToGallery_declined:
  "capturedImage s \<noteq> None \<Longrightarrow> galleryPermission s \<noteq> Some True \<Longrightarrow>
   asked \<noteq> Resolves ''granted'' \<Longrightarrow>
   saveToGallery asked created added s w =
     (s\<lparr> galleryPermission := Some False \<rparr>,
      w\<lparr> camera_calls := camera_calls w @ [MediaRequestPermissions],
         camera_alerts := camera_alerts w @
           [(''Permission Required'',
             ''Gallery access is required to save photos. Please enable storage permission in settings.'')] \<rparr>)"
  by (cases asked)
     (auto simp: saveToGallery_def requestGalleryPermission_def call_camera_def alert_camera_def)

lemma saveToGallery_error_branch:
  "(''Error'', ''Failed to save image to gallery'') \<in>
      set (drop (length (camera_alerts w))
             (camera_alerts (snd (saveToGallery asked created added s w)))) \<Longrightarrow>
   capturedImage s \<noteq> None \<and> (galleryPermission s = Some True \<or> asked = Resolves ''granted'')"
  by (auto simp: saveToGallery_def requestGalleryPermission_def save_image_def call_camera_def
                 alert_camera_def Let_def
           split: option.splits answer.splits if_splits)

text \<open>
  C9.  Without a captured image \<open>saveToGallery\<close> returns at once: no call, no alert,
  no change.  With an image, the gallery permission not recorded as granted and the
  request not answered \<open>'granted'\<close>, it makes the permission request and nothing else:
  neither \<open>createAssetAsync\<close> nor \<open>createAlbumAsync\<close> is called, and the alert is
  \<open>Permission Required\<close>.  The alert \<open>Failed to save image to gallery\<close> is raised only
  with an image and a permission that is recorded as granted or has just been granted.
\<close>

theorem saveToGallery_guards:
  "(capturedImage s = None \<longrightarrow> saveToGallery asked created added s w = (s, w)) \<and>
   (capturedImage s \<noteq> None \<and> galleryPermission s \<noteq> Some True \<and> asked \<noteq> Resolves ''granted'' \<longrightarrow>
      (case saveToGallery asked created added s w of
         (s', w') \<Rightarrow>
           camera_calls w' = camera_calls w @ [MediaRequestPermissions] \<and>
           camera_alerts w' = camera_alerts w @
             [(''Permission Required'',
               ''Gallery access is required to save photos. Please enable storage permission in settings.'')] \<and>
           s' = s\<lparr> galleryPermission := Some False \<rparr>)) \<and>
   ((''Error'', ''Failed to save image to gallery'') \<in>
      set (drop (length (camera_alerts w))
             (camera_alerts (snd (saveToGallery asked created added s w)))) \<longrightarrow>
    capturedImage s \<noteq> None \<and> (galleryPermission s = Some True \<or> asked = Resolves ''granted''))"
proof (intro conjI impI)
  assume "capturedImage s = None"
  then show "saveToGallery asked created added s w = (s, w)"
    by (simp add: saveToGallery_def)
next
  assume "capturedImage s \<noteq> None \<and> galleryPermission s \<noteq> Some True \<and> asked \<noteq> Resolves ''granted''"
  then show "case saveToGallery asked created added s w of
         (s', w') \<Rightarrow>
           camera_calls w' = camera_calls w @ [MediaRequestPermissions] \<and>
           camera_alerts w' = camera_alerts w @
             [(''Permission Required'',
               ''Gallery access is required to save photos. Please enable storage permission in settings.'')] \<and>
           s' = s\<lparr> galleryPermission := Some False \<rparr>"
    by (simp add: saveToGallery_declined)
next
  assume a: "(''Error'', ''Failed to save image to gallery'') \<in>
      set (drop (length (camera_alerts w))
             (camera_alerts (snd (saveToGallery asked created added s w))))"
  from saveToGallery_error_branch [OF a]
  show "capturedImage s \<noteq> None" and "galleryPermission s = Some True \<or> asked = Resolves ''granted''"
    by simp_all
qed

text \<open>
  No image; an image with a declined request; an image, a granted request and a failing
  \<open>createAssetAsync\<close>.
\<close>

theorem saveToGallery_guards_witness:
  "capturedImage initial_camera_screen = None \<and>
   saveToGallery (Resolves ''denied'') (Resolves 7) (Resolves ()) initial_camera_screen
     initial_camera_platform = (initial_camera_screen, initial_camera_platform) \<and>
   capturedImage (initial_camera_screen\<lparr> capturedImage := Some \<lparr> uri = ''file:///a.jpg'', width = 4, height = 3 \<rparr> \<rparr>) \<noteq> None \<and>
   galleryPermission (initial_camera_screen\<lparr> capturedImage := Some \<lparr> uri = ''file:///a.jpg'', width = 4, height = 3 \<rparr> \<rparr>) \<noteq> Some True \<and>
   Resolves ''denied'' \<noteq> Resolves ''granted'' \<and>
   camera_calls (snd (saveToGallery (Resolves ''denied'') (Resolves 7) (Resolves ())
      (initial_camera_screen\<lparr> capturedImage := Some \<lparr> uri = ''file:///a.jpg'', width = 4, height = 3 \<rparr> \<rparr>)
      initial_camera_platform)) = [MediaRequestPermissions] \<and>
   (''Error'', ''Failed to save image to gallery'') \<in>
      set (drop (length (camera_alerts initial_camera_platform))
             (camera_alerts (snd (saveToGallery (Resolves ''granted'') Throws (Resolves ())
                (initial_camera_screen\<lparr> capturedImage := Some \<lparr> uri = ''file:///a.jpg'', width = 4, height = 3 \<rparr> \<rparr>)
                initial_camera_platform))))"
  using saveToGallery_guards
    [where s = initial_camera_screen and w = initial_camera_platform
       and asked = "Resolves ''denied''" and created = "Resolves 7" and added = "Resolves ()"]
    saveToGallery_guards
    [where s = "initial_camera_screen\<lparr> capturedImage := Some \<lparr> uri = ''file:///a.jpg'', width = 4, height = 3 \<rparr> \<rparr>"
       and w = initial_camera_platform
       and asked = "Resolves ''denied''" and created = "Resolves 7" and added = "Resolves ()"]
    saveToGallery_guards
    [where s = "initial_camera_screen\<lparr> capturedImage := Some \<lparr> uri = ''file:///a.jpg'', width = 4, height = 3 \<rparr> \<rparr>"
       and w = initial_camera_platform
       and asked = "Resolves ''granted''" and created = Throws and added = "Resolves ()"]
  by (simp add: camera_defs)

section \<open>Properties of the login and registration screen\<close>

lemmas auth_defs =
  handleSubmit_def saveUserData_def loadUserData_def clearUserData_def toggleMode_def
  handleLogout_def alert_auth_def post_def API_BASE_URL_def initial_auth_screen_def
  initial_auth_platform_def

text \<open>
  C6.  A login whose response is not ok and carries a non-empty \<open>message\<close>: the form
  is posted to \<open>/login\<close>, the alert shows that message, \<open>currentUser\<close> and the secure
  store are untouched, and the only change of the screen is that \<open>loading\<close> is cleared.
\<close>

theorem login_failure_surfaces_message:
  assumes "isLogin s" and "email s \<noteq> []" and "password s \<noteq> []"
    and "\<not> ok resp" and "message (data resp) = Some m" and "m \<noteq> []"
  shows "case handleSubmit (Resolves resp) written s w of
           (s', w') \<Rightarrow>
             posts w' = posts w @ [(API_BASE_URL @ ''/login'', LoginBody (email s) (password s))] \<and>
             auth_alerts w' = auth_alerts w @ [(''Error'', Some m)] \<and>
             currentUser s' = currentUser s \<and>
             secure_store w' = secure_store w \<and>
             s' = s\<lparr> loading := False \<rparr>"
  using assms by (simp add: handleSubmit_def alert_auth_def post_def)

text \<open>
  A wrong password answered with \<open>Invalid credentials\<close>.
\<close>

theorem login_failure_surfaces_message_witness:
  "isLogin (initial_auth_screen\<lparr> email := ''a@b.c'', password := ''wrong'' \<rparr>) \<and>
   email (initial_auth_screen\<lparr> email := ''a@b.c'', password := ''wrong'' \<rparr>) \<noteq> [] \<and>
   password (initial_auth_screen\<lparr> email := ''a@b.c'', password := ''wrong'' \<rparr>) \<noteq> [] \<and>
   \<not> ok \<lparr> ok = False, data = \<lparr> message = Some ''Invalid credentials'', user = None \<rparr> \<rparr> \<and>
   auth_alerts (snd (handleSubmit
      (Resolves \<lparr> ok = False, data = \<lparr> message = Some ''Invalid credentials'', user = None \<rparr> \<rparr>)
      (Resolves ()) (initial_auth_screen\<lparr> email := ''a@b.c'', password := ''wrong'' \<rparr>)
      initial_auth_platform)) = [(''Error'', Some ''Invalid credentials'')] \<and>
   currentUser (fst (handleSubmit
      (Resolves \<lparr> ok = False, data = \<lparr> message = Some ''Invalid credentials'', user = None \<rparr> \<rparr>)
      (Resolves ()) (initial_auth_screen\<lparr> email := ''a@b.c'', password := ''wrong'' \<rparr>)
      initial_auth_platform)) = None \<and>
   secure_store (snd (handleSubmit
      (Resolves \<lparr> ok = False, data = \<lparr> message = Some ''Invalid credentials'', user = None \<rparr> \<rparr>)
      (Resolves ()) (initial_auth_screen\<lparr> email := ''a@b.c'', password := ''wrong'' \<rparr>)
      initial_auth_platform)) ''userData'' = None"
proof -
  let ?s = "initial_auth_screen\<lparr> email := ''a@b.c'', password := ''wrong'' \<rparr>"
  let ?r = "\<lparr> ok = False, data = \<lparr> message = Some ''Invalid credentials'', user = None \<rparr> \<rparr>"
  have a: "isLogin ?s" and b: "email ?s \<noteq> []" and c: "password ?s \<noteq> []"
    by (simp_all add: initial_auth_screen_def)
  have d: "\<not> ok ?r" and e: "message (data ?r) = Some ''Invalid credentials''"
    and f: "''Invalid credentials'' \<noteq> []"
    by simp_all
  from login_failure_surfaces_message [OF a b c d e f, where written = "Resolves ()" and w = initial_auth_platform]
       a b c d
  show ?thesis
    by (simp add: initial_auth_screen_def initial_auth_platform_def split: prod.splits)
qed

text \<open>
  C10.  A registration whose response is ok: the form is posted to \<open>/register\<close>, the
  screen switches to login mode with an empty password field, and \<open>currentUser\<close> and
  the secure store are untouched.
\<close>

theorem register_success_switches_to_login:
  assumes "\<not> isLogin s" and "name s \<noteq> []" and "email s \<noteq> []" and "password s \<noteq> []"
    and "ok resp"
  shows "case handleSubmit (Resolves resp) written s w of
           (s', w') \<Rightarrow>
             isLogin s' \<and> password s' = [] \<and>
             currentUser s' = currentUser s \<and>
             secure_store w' = secure_store w \<and>
             s' = s\<lparr> isLogin := True, password := [], loading := False \<rparr> \<and>
             posts w' = posts w @
               [(API_BASE_URL @ ''/register'', RegisterBody (name s) (email s) (password s))] \<and>
             auth_alerts w' = auth_alerts w @ [(''Success'', message (data resp))]"
  using assms by (simp add: handleSubmit_def alert_auth_def post_def)

text \<open>
  A filled registration form answered with \<open>User registered\<close>.
\<close>

theorem register_success_switches_to_login_witness:
  "\<not> isLogin (initial_auth_screen\<lparr> name := ''Ann'', email := ''a@b.c'', password := ''pw'', isLogin := False \<rparr>) \<and>
   ok \<lparr> ok = True, data = \<lparr> message = Some ''User registered'',
          user = Some \<lparr> user_name = ''Ann'', user_email = ''a@b.c'' \<rparr> \<rparr> \<rparr> \<and>
   fst (handleSubmit
      (Resolves \<lparr> ok = True, data = \<lparr> message = Some ''User registered'',
          user = Some \<lparr> user_name = ''Ann'', user_email = ''a@b.c'' \<rparr> \<rparr> \<rparr>)
      (Resolves ())
      (initial_auth_screen\<lparr> name := ''Ann'', email := ''a@b.c'', password := ''pw'', isLogin := False \<rparr>)
      initial_auth_platform) =
     initial_auth_screen\<lparr> name := ''Ann'', email := ''a@b.c'' \<rparr> \<and>
   secure_store (snd (handleSubmit
      (Resolves \<lparr> ok = True, data = \<lparr> message = Some ''User registered'',
          user = Some \<lparr> user_name = ''Ann'', user_email = ''a@b.c'' \<rparr> \<rparr> \<rparr>)
      (Resolves ())
      (initial_auth_screen\<lparr> name := ''Ann'', email := ''a@b.c'', password := ''pw'', isLogin := False \<rparr>)
      initial_auth_platform)) ''userData'' = None"
proof -
  let ?s = "initial_auth_screen\<lparr> name := ''Ann'', email := ''a@b.c'', password := ''pw'', isLogin := False \<rparr>"
  let ?r = "\<lparr> ok = True, data = \<lparr> message = Some ''User registered'',
          user = Some \<lparr> user_name = ''Ann'', user_email = ''a@b.c'' \<rparr> \<rparr> \<rparr>"
  have a: "\<not> isLogin ?s" and b: "name ?s \<noteq> []" and c: "email ?s \<noteq> []" and d: "password ?s \<noteq> []"
    by (simp_all add: initial_auth_screen_def)
  have e: "ok ?r" by simp
  from register_success_switches_to_login [OF a b c d e, where written = "Resolves ()" and w = initial_auth_platform] a e
  show ?thesis
    by (simp add: initial_auth_screen_def initial_auth_platform_def split: prod.splits)
qed

end
